theory Spec2Isabelle
  imports Main "HOL-Library.Char_ord" "HOL-Library.List_Lexorder"
begin

section \<open>langcodes: the Language class, likely subtags and matching\<close>

text \<open>
  A shallow embedding of \<^verbatim>\<open>langcodes/__init__.py\<close>. Python strings are
  \<^typ>\<open>string\<close>, \<^verbatim>\<open>None\<close> is \<^term>\<open>None\<close>, a raised exception is
  the left injection of a sum.

  The module keeps three kinds of memo tables: \<^verbatim>\<open>Language._INSTANCES\<close> (interning
  of instances), \<^verbatim>\<open>Language._PARSE_CACHE\<close> and the per-instance fields
  \<^verbatim>\<open>_simplified\<close>, \<^verbatim>\<open>_broader\<close>, \<^verbatim>\<open>_filled\<close>, ... They are treated on two levels.
  The last part of this theory models the store: instances on a heap, the interning
  table, the cached \<^verbatim>\<open>_str_tag\<close> and identity of references. The functional part
  identifies an instance with the tuple \<^verbatim>\<open>values\<close> under which
  \<^verbatim>\<open>Language.make\<close> interns it, and computes every derived form from the attributes
  instead of reading it from a memo field.
\<close>

subsection \<open>Values\<close>

datatype error = LanguageTagError | RuntimeError | RecursionError | IndexError

text \<open>\<^verbatim>\<open>Language.ATTRIBUTES\<close>: the names of the seven attributes.\<close>

datatype attr = A_language | A_extlangs | A_script | A_territory
  | A_variants | A_extensions | A_private

definition ATTRIBUTES :: "attr list" where
  "ATTRIBUTES = [A_language, A_extlangs, A_script, A_territory,
                 A_variants, A_extensions, A_private]"

text \<open>
  An interned instance: the tuple
  \<^verbatim>\<open>(language, tuple(extlangs or ()), script, territory, tuple(variants or ()),
  tuple(extensions or ()), private)\<close>.
\<close>

record Language =
  language :: "string option"
  extlangs :: "string list"
  script :: "string option"
  territory :: "string option"
  variants :: "string list"
  extensions :: "string list"
  private_use :: "string option"

text \<open>
  A dictionary of keyword arguments over \<^term>\<open>ATTRIBUTES\<close>; a missing key is
  \<^term>\<open>None\<close>, which is also the default of every parameter of
  \<^verbatim>\<open>Language.make\<close>.
\<close>

record kwargs =
  kw_language :: "string option"
  kw_extlangs :: "string list option"
  kw_script :: "string option"
  kw_territory :: "string option"
  kw_variants :: "string list option"
  kw_extensions :: "string list option"
  kw_private :: "string option"

definition no_kwargs :: kwargs where
  "no_kwargs = \<lparr>kw_language = None, kw_extlangs = None, kw_script = None,
     kw_territory = None, kw_variants = None, kw_extensions = None, kw_private = None\<rparr>"

text \<open>Truth value of a string or \<^verbatim>\<open>None\<close>, and Python's \<^verbatim>\<open>a or b\<close>.\<close>

definition truthy :: "string option \<Rightarrow> bool" where
  "truthy x = (case x of None \<Rightarrow> False | Some s \<Rightarrow> s \<noteq> [])"

definition py_or :: "string option \<Rightarrow> string option \<Rightarrow> string option" where
  "py_or a b = (if truthy a then a else b)"

definition or_empty :: "string list option \<Rightarrow> string list" where
  "or_empty x = (case x of None \<Rightarrow> [] | Some xs \<Rightarrow> xs)"

definition list_or :: "string list \<Rightarrow> string list \<Rightarrow> string list" where
  "list_or a b = (if a \<noteq> [] then a else b)"

subsection \<open>Language.make and to_tag\<close>

definition Language_make :: "kwargs \<Rightarrow> Language" where
  "Language_make kw = \<lparr>language = kw_language kw, extlangs = or_empty (kw_extlangs kw),
     script = kw_script kw, territory = kw_territory kw,
     variants = or_empty (kw_variants kw), extensions = or_empty (kw_extensions kw),
     private_use = kw_private kw\<rparr>"

fun join :: "string \<Rightarrow> string list \<Rightarrow> string" where
  "join sep [] = []"
| "join sep [x] = x"
| "join sep (x # y # ys) = x @ sep @ join sep (y # ys)"

definition subtag_of :: "string option \<Rightarrow> string list" where
  "subtag_of x = (if truthy x then [case x of Some s \<Rightarrow> s | None \<Rightarrow> []] else [])"

definition to_tag :: "Language \<Rightarrow> string" where
  "to_tag self =
     join ''-''
       ((if truthy (language self) then subtag_of (language self) else [''und''])
        @ sort (extlangs self)
        @ subtag_of (script self)
        @ subtag_of (territory self)
        @ sort (variants self)
        @ extensions self
        @ subtag_of (private_use self))"

text \<open>
  \<^verbatim>\<open>__eq__\<close>: identity first, then the cached tags. On interned instances identity
  is equality of the interning tuple.
\<close>

definition Language_eq :: "Language \<Rightarrow> Language \<Rightarrow> bool" where
  "Language_eq self other = (if self = other then True else to_tag self = to_tag other)"

subsection \<open>to_dict, update, update_dict, _filter_attributes\<close>

definition truthy_list :: "string list \<Rightarrow> string list option" where
  "truthy_list xs = (if xs \<noteq> [] then Some xs else None)"

definition to_dict :: "Language \<Rightarrow> kwargs" where
  "to_dict self =
     \<lparr>kw_language = (if truthy (language self) then language self else None),
      kw_extlangs = truthy_list (extlangs self),
      kw_script = (if truthy (script self) then script self else None),
      kw_territory = (if truthy (territory self) then territory self else None),
      kw_variants = truthy_list (variants self),
      kw_extensions = truthy_list (extensions self),
      kw_private = (if truthy (private_use self) then private_use self else None)\<rparr>"

definition update :: "Language \<Rightarrow> Language \<Rightarrow> Language" where
  "update self other =
     Language_make \<lparr>kw_language = py_or (language other) (language self),
           kw_extlangs = Some (list_or (extlangs other) (extlangs self)),
           kw_script = py_or (script other) (script self),
           kw_territory = py_or (territory other) (territory self),
           kw_variants = Some (list_or (variants other) (variants self)),
           kw_extensions = Some (list_or (extensions other) (extensions self)),
           kw_private = py_or (private_use other) (private_use self)\<rparr>"

text \<open>
  The argument of \<^verbatim>\<open>update_dict\<close> may hold a key whose value is \<^verbatim>\<open>None\<close>
  (\<^verbatim>\<open>{'script': None}\<close>), so a key is an option of the value.
\<close>

record newdata =
  nd_language :: "string option option"
  nd_extlangs :: "string list option option"
  nd_script :: "string option option"
  nd_territory :: "string option option"
  nd_variants :: "string list option option"
  nd_extensions :: "string list option option"
  nd_private :: "string option option"

definition no_newdata :: newdata where
  "no_newdata = \<lparr>nd_language = None, nd_extlangs = None, nd_script = None,
     nd_territory = None, nd_variants = None, nd_extensions = None, nd_private = None\<rparr>"

definition dict_get :: "'a option \<Rightarrow> 'a \<Rightarrow> 'a" where
  "dict_get entry dflt = (case entry of Some v \<Rightarrow> v | None \<Rightarrow> dflt)"

definition update_dict :: "Language \<Rightarrow> newdata \<Rightarrow> Language" where
  "update_dict self nd =
     Language_make \<lparr>kw_language = dict_get (nd_language nd) (language self),
           kw_extlangs = dict_get (nd_extlangs nd) (Some (extlangs self)),
           kw_script = dict_get (nd_script nd) (script self),
           kw_territory = dict_get (nd_territory nd) (territory self),
           kw_variants = dict_get (nd_variants nd) (Some (variants self)),
           kw_extensions = dict_get (nd_extensions nd) (Some (extensions self)),
           kw_private = dict_get (nd_private nd) (private_use self)\<rparr>"

definition filter_keys :: "kwargs \<Rightarrow> attr set \<Rightarrow> kwargs" where
  "filter_keys d keys =
     \<lparr>kw_language = (if A_language \<in> keys then kw_language d else None),
      kw_extlangs = (if A_extlangs \<in> keys then kw_extlangs d else None),
      kw_script = (if A_script \<in> keys then kw_script d else None),
      kw_territory = (if A_territory \<in> keys then kw_territory d else None),
      kw_variants = (if A_variants \<in> keys then kw_variants d else None),
      kw_extensions = (if A_extensions \<in> keys then kw_extensions d else None),
      kw_private = (if A_private \<in> keys then kw_private d else None)\<rparr>"

definition filter_attributes :: "Language \<Rightarrow> attr set \<Rightarrow> Language" where
  "filter_attributes self keyset = Language_make (filter_keys (to_dict self) keyset)"

subsection \<open>broaden\<close>

definition BROADER_KEYSETS :: "attr set list" where
  "BROADER_KEYSETS =
     [{A_language, A_script, A_territory}, {A_language, A_territory},
      {A_language, A_script}, {A_language}, {A_script}, {}]"

text \<open>
  The loop of \<^verbatim>\<open>broaden\<close>. The set \<^verbatim>\<open>seen\<close> starts as
  \<^verbatim>\<open>set(self.to_tag())\<close>: Python builds the set of the elements of the string, which
  are its one-character substrings.
\<close>

fun broaden_loop :: "Language \<Rightarrow> attr set list \<Rightarrow> Language list \<Rightarrow> string set \<Rightarrow> Language list" where
  "broaden_loop self [] broader seen = broader"
| "broaden_loop self (keyset # keysets) broader seen =
     (let filtered = filter_attributes self keyset;
          tag = to_tag filtered
      in if tag \<notin> seen
         then broaden_loop self keysets (broader @ [filtered]) (insert tag seen)
         else broaden_loop self keysets broader seen)"

definition broaden :: "Language \<Rightarrow> Language list" where
  "broaden self =
     broaden_loop self BROADER_KEYSETS [self] ((\<lambda>c. [c]) ` set (to_tag self))"

subsection \<open>The reference data and the tag parser\<close>

text \<open>
  The tables of \<^verbatim>\<open>langcodes.data_dicts\<close> and the function
  \<^verbatim>\<open>langcodes.tag_parser.parse_tag\<close> are imported by the module and are parameters
  here. \<^verbatim>\<open>parse_tag\<close> returns a list of typed subtags or raises
  \<^verbatim>\<open>LanguageTagError\<close>. \<^verbatim>\<open>recursion_limit\<close> is the number of nested
  calls of \<^verbatim>\<open>Language.get\<close> that the interpreter allows before it raises
  \<^verbatim>\<open>RecursionError\<close>; \<^verbatim>\<open>rule_distance\<close> is the value that the rule table of
  \<^verbatim>\<open>langcodes.language_distance\<close> gives to a pair of triples.
\<close>

datatype subtag = T_language | T_extlang | T_script | T_territory
  | T_variant | T_extension | T_private | T_grandfathered

type_synonym triple = "string option \<times> string option \<times> string option"

record data_dicts =
  DEFAULT_SCRIPTS :: "string \<rightharpoonup> string"
  LANGUAGE_REPLACEMENTS :: "string \<rightharpoonup> string"
  TERRITORY_REPLACEMENTS :: "string \<rightharpoonup> string"
  NORMALIZED_MACROLANGUAGES :: "string \<rightharpoonup> string"
  LIKELY_SUBTAGS :: "string \<rightharpoonup> string"
  parse_tag :: "string \<Rightarrow> (subtag \<times> string) list option"
  rule_distance :: "triple \<Rightarrow> triple \<Rightarrow> int"
  recursion_limit :: nat

text \<open>\<^verbatim>\<open>str.lower\<close> on the ASCII letters, which are the letters of a language tag.\<close>

definition lower_char :: "char \<Rightarrow> char" where
  "lower_char c =
     (if CHR ''A'' \<le> c \<and> c \<le> CHR ''Z'' then char_of (of_char c + (32::nat)) else c)"

definition lower :: "string \<Rightarrow> string" where
  "lower s = map lower_char s"

subsection \<open>Language.get\<close>

datatype tag_arg = Str string | Lang Language

definition dict_update :: "kwargs \<Rightarrow> kwargs \<Rightarrow> kwargs" where
  "dict_update data d =
     \<lparr>kw_language = (case kw_language d of Some v \<Rightarrow> Some v | None \<Rightarrow> kw_language data),
      kw_extlangs = (case kw_extlangs d of Some v \<Rightarrow> Some v | None \<Rightarrow> kw_extlangs data),
      kw_script = (case kw_script d of Some v \<Rightarrow> Some v | None \<Rightarrow> kw_script data),
      kw_territory = (case kw_territory d of Some v \<Rightarrow> Some v | None \<Rightarrow> kw_territory data),
      kw_variants = (case kw_variants d of Some v \<Rightarrow> Some v | None \<Rightarrow> kw_variants data),
      kw_extensions = (case kw_extensions d of Some v \<Rightarrow> Some v | None \<Rightarrow> kw_extensions data),
      kw_private = (case kw_private d of Some v \<Rightarrow> Some v | None \<Rightarrow> kw_private data)\<rparr>"

text \<open>\<^verbatim>\<open>data.setdefault(key, []).append(value)\<close>\<close>

definition setdefault_append :: "string list option \<Rightarrow> string \<Rightarrow> string list option" where
  "setdefault_append entry v = Some (or_empty entry @ [v])"

text \<open>
  One round of the loop over the parsed subtags, with the branches in the order of the
  source. \<open>rec\<close> stands for the recursive call of \<^verbatim>\<open>Language.get\<close>.
\<close>

definition get_step ::
  "data_dicts \<Rightarrow> (tag_arg \<Rightarrow> bool \<Rightarrow> error + Language) \<Rightarrow> bool \<Rightarrow> kwargs
     \<Rightarrow> subtag \<times> string \<Rightarrow> error + kwargs" where
  "get_step D rec normalise data c =
     (case c of (typ, val) \<Rightarrow>
      if typ = T_extlang \<and> normalise \<and> kw_language data \<noteq> None then
        (let minitag = (case kw_language data of Some l \<Rightarrow> l | None \<Rightarrow> []) @ ''-'' @ val
         in case LANGUAGE_REPLACEMENTS D (lower minitag) of
              Some norm \<Rightarrow>
                (case rec (Str norm) normalise of
                   Inl e \<Rightarrow> Inl e
                 | Inr l \<Rightarrow> Inr (dict_update data (to_dict l)))
            | None \<Rightarrow> Inr (data\<lparr>kw_extlangs := setdefault_append (kw_extlangs data) val\<rparr>))
      else if typ \<in> {T_extlang, T_variant, T_extension} then
        Inr (case typ of
               T_extlang \<Rightarrow> data\<lparr>kw_extlangs := setdefault_append (kw_extlangs data) val\<rparr>
             | T_variant \<Rightarrow> data\<lparr>kw_variants := setdefault_append (kw_variants data) val\<rparr>
             | _ \<Rightarrow> data\<lparr>kw_extensions := setdefault_append (kw_extensions data) val\<rparr>)
      else if typ = T_language then
        (if val = ''und'' then Inr data
         else if normalise then
           (case LANGUAGE_REPLACEMENTS D (lower val) of
              Some replacement \<Rightarrow>
                (case rec (Str replacement) normalise of
                   Inl e \<Rightarrow> Inl e
                 | Inr l \<Rightarrow> Inr (dict_update data (to_dict l)))
            | None \<Rightarrow> Inr (data\<lparr>kw_language := Some val\<rparr>))
         else Inr (data\<lparr>kw_language := Some val\<rparr>))
      else if typ = T_territory then
        (if normalise
         then Inr (data\<lparr>kw_territory :=
                     Some (dict_get (TERRITORY_REPLACEMENTS D (lower val)) val)\<rparr>)
         else Inr (data\<lparr>kw_territory := Some val\<rparr>))
      else if typ = T_grandfathered then Inr (data\<lparr>kw_language := Some val\<rparr>)
      else
        Inr (case typ of
               T_script \<Rightarrow> data\<lparr>kw_script := Some val\<rparr>
             | _ \<Rightarrow> data\<lparr>kw_private := Some val\<rparr>))"

fun get_loop ::
  "data_dicts \<Rightarrow> (tag_arg \<Rightarrow> bool \<Rightarrow> error + Language) \<Rightarrow> bool
     \<Rightarrow> (subtag \<times> string) list \<Rightarrow> kwargs \<Rightarrow> error + kwargs" where
  "get_loop D rec normalise [] data = Inr data"
| "get_loop D rec normalise (c # cs) data =
     (case get_step D rec normalise data c of
        Inl e \<Rightarrow> Inl e
      | Inr data' \<Rightarrow> get_loop D rec normalise cs data')"

definition get_str ::
  "data_dicts \<Rightarrow> (tag_arg \<Rightarrow> bool \<Rightarrow> error + Language) \<Rightarrow> string \<Rightarrow> bool
     \<Rightarrow> error + Language" where
  "get_str D rec tag normalise =
     (let tag_lower = lower tag;
          tag' = (if normalise \<and> LANGUAGE_REPLACEMENTS D tag_lower \<noteq> None
                  then (case LANGUAGE_REPLACEMENTS D tag_lower of Some r \<Rightarrow> r | None \<Rightarrow> tag)
                  else tag)
      in case parse_tag D tag' of
           None \<Rightarrow> Inl LanguageTagError
         | Some components \<Rightarrow>
             (case get_loop D rec normalise components no_kwargs of
                Inl e \<Rightarrow> Inl e
              | Inr data \<Rightarrow> Inr (Language_make data)))"

definition get_body ::
  "data_dicts \<Rightarrow> (tag_arg \<Rightarrow> bool \<Rightarrow> error + Language) \<Rightarrow> tag_arg \<Rightarrow> bool
     \<Rightarrow> error + Language" where
  "get_body D rec tag normalise =
     (case tag of
        Lang l \<Rightarrow> if \<not> normalise then Inr l else get_str D rec (to_tag l) normalise
      | Str s \<Rightarrow> get_str D rec s normalise)"

text \<open>
  \<^verbatim>\<open>Language.get\<close> calls itself on a replacement, and nothing in the code bounds
  the chain of replacements: the depth of the recursion is bounded by the interpreter,
  which raises \<^verbatim>\<open>RecursionError\<close>.

  The memo table \<^verbatim>\<open>_PARSE_CACHE\<close> is left out: the result is computed at every
  call. An entry for \<^verbatim>\<open>(tag, False)\<close> is the result of this computation on
  \<^verbatim>\<open>tag\<close>. With normalization the code writes the entry under the tag as it is
  after the replacement of the whole tag, so that a later call on the replacement itself
  reads a result in which the replacement was not replaced once more; no property
  below is about the normalization of a tag that has a replacement.
\<close>

primrec get_depth :: "data_dicts \<Rightarrow> nat \<Rightarrow> tag_arg \<Rightarrow> bool \<Rightarrow> error + Language" where
  "get_depth D 0 = get_body D (\<lambda>tag normalise. Inl RecursionError)"
| "get_depth D (Suc n) = get_body D (get_depth D n)"

definition get :: "data_dicts \<Rightarrow> tag_arg \<Rightarrow> bool \<Rightarrow> error + Language" where
  "get D tag normalise = get_depth D (recursion_limit D) tag normalise"

subsection \<open>simplify_script, prefer_macrolanguage, maximize\<close>

definition simplify_script :: "data_dicts \<Rightarrow> Language \<Rightarrow> Language" where
  "simplify_script D self =
     (if truthy (language self) \<and> truthy (script self) then
        (if (case language self of Some l \<Rightarrow> DEFAULT_SCRIPTS D l | None \<Rightarrow> None) = script self
         then update_dict self (no_newdata\<lparr>nd_script := Some None\<rparr>)
         else self)
      else self)"

definition prefer_macrolanguage :: "data_dicts \<Rightarrow> Language \<Rightarrow> Language" where
  "prefer_macrolanguage D self =
     (let lang = (case py_or (language self) (Some ''und'') of Some l \<Rightarrow> l | None \<Rightarrow> ''und'')
      in case NORMALIZED_MACROLANGUAGES D lang of
           Some macro \<Rightarrow> update_dict self (no_newdata\<lparr>nd_language := Some (Some macro)\<rparr>)
         | None \<Rightarrow> self)"

fun maximize_loop :: "data_dicts \<Rightarrow> Language \<Rightarrow> Language list \<Rightarrow> error + Language" where
  "maximize_loop D self [] = Inl RuntimeError"
| "maximize_loop D self (broader # rest) =
     (let tag = to_tag broader
      in case LIKELY_SUBTAGS D tag of
           Some v \<Rightarrow>
             (case get D (Str v) False of
                Inl e \<Rightarrow> Inl e
              | Inr result \<Rightarrow> Inr (update result self))
         | None \<Rightarrow> maximize_loop D self rest)"

definition maximize :: "data_dicts \<Rightarrow> Language \<Rightarrow> error + Language" where
  "maximize D self = maximize_loop D self (broaden self)"

subsection \<open>distance\<close>

text \<open>
  Modelled from the spec: \<^verbatim>\<open>tuple_distance_cached\<close> of
  \<^verbatim>\<open>langcodes.language_distance\<close> is not among the sources. The specification
  (4.3, steps 4 to 6) has the rule table give a summed or selected distance for the two
  triples, which is clamped to the legal range 0 to 134 and returned.
\<close>

definition tuple_distance_cached :: "data_dicts \<Rightarrow> triple \<Rightarrow> triple \<Rightarrow> int" where
  "tuple_distance_cached D desired supported =
     max 0 (min 134 (rule_distance D desired supported))"

text \<open>
  Each side of \<^verbatim>\<open>distance\<close>: the wildcard triple for a tag without language,
  script and territory, the attributes of the maximized tag otherwise.
\<close>

definition distance_triple :: "data_dicts \<Rightarrow> Language \<Rightarrow> error + triple" where
  "distance_triple D t =
     (if language t = None \<and> script t = None \<and> territory t = None
      then Inr (Some ''und'', Some ''Zzzz'', Some ''ZZ'')
      else case maximize D (prefer_macrolanguage D t) of
             Inl e \<Rightarrow> Inl e
           | Inr complete \<Rightarrow> Inr (language complete, script complete, territory complete))"

definition distance :: "data_dicts \<Rightarrow> Language \<Rightarrow> Language \<Rightarrow> error + int" where
  "distance D self supported =
     (if Language_eq supported self then Inr 0
      else case distance_triple D self of
             Inl e \<Rightarrow> Inl e
           | Inr desired_triple \<Rightarrow>
               (case distance_triple D supported of
                  Inl e \<Rightarrow> Inl e
                | Inr supported_triple \<Rightarrow>
                    Inr (tuple_distance_cached D desired_triple supported_triple)))"

subsection \<open>standardize_tag, tag_distance, closest_match\<close>

definition standardize_tag :: "data_dicts \<Rightarrow> tag_arg \<Rightarrow> bool \<Rightarrow> error + string" where
  "standardize_tag D tag macro =
     (case get D tag True of
        Inl e \<Rightarrow> Inl e
      | Inr langdata \<Rightarrow>
          Inr (to_tag (simplify_script D
                 (if macro then prefer_macrolanguage D langdata else langdata))))"

definition tag_distance :: "data_dicts \<Rightarrow> tag_arg \<Rightarrow> tag_arg \<Rightarrow> error + int" where
  "tag_distance D desired supported =
     (case get D desired True of
        Inl e \<Rightarrow> Inl e
      | Inr desired_obj \<Rightarrow>
          (case get D supported True of
             Inl e \<Rightarrow> Inl e
           | Inr supported_obj \<Rightarrow> distance D desired_obj supported_obj))"

text \<open>
  \<^verbatim>\<open>x in xs\<close> on a list compares with \<^verbatim>\<open>==\<close>: strings by value, instances by
  \<^verbatim>\<open>__eq__\<close>, and a string never equals an instance.
\<close>

fun py_eq :: "tag_arg \<Rightarrow> tag_arg \<Rightarrow> bool" where
  "py_eq (Str a) (Str b) = (a = b)"
| "py_eq (Lang x) (Lang y) = Language_eq x y"
| "py_eq (Str a) (Lang y) = False"
| "py_eq (Lang x) (Str b) = False"

definition py_in :: "tag_arg \<Rightarrow> tag_arg list \<Rightarrow> bool" where
  "py_in x xs = list_ex (py_eq x) xs"

fun match_distances :: "data_dicts \<Rightarrow> tag_arg \<Rightarrow> tag_arg list \<Rightarrow> error + (tag_arg \<times> int) list" where
  "match_distances D desired [] = Inr []"
| "match_distances D desired (supported # rest) =
     (case tag_distance D desired supported of
        Inl e \<Rightarrow> Inl e
      | Inr d \<Rightarrow>
          (case match_distances D desired rest of
             Inl e \<Rightarrow> Inl e
           | Inr ds \<Rightarrow> Inr ((supported, d) # ds)))"

definition closest_match ::
  "data_dicts \<Rightarrow> tag_arg \<Rightarrow> tag_arg list \<Rightarrow> int \<Rightarrow> error + (tag_arg \<times> int)" where
  "closest_match D desired_language supported_languages max_distance =
     (if py_in desired_language supported_languages then Inr (desired_language, 0)
      else case standardize_tag D desired_language False of
             Inl e \<Rightarrow> Inl e
           | Inr standard \<Rightarrow>
               if py_in (Str standard) supported_languages then Inr (Str standard, 0)
               else (case match_distances D (Str standard) supported_languages of
                       Inl e \<Rightarrow> Inl e
                     | Inr ds \<Rightarrow>
                         (case sort_key snd
                                 (filter (\<lambda>(supported, d). d \<le> max_distance) ds
                                  @ [(Str ''und'', 1000)]) of
                            [] \<Rightarrow> Inl IndexError
                          | best # others \<Rightarrow> Inr best)))"

subsection \<open>The reference data, as far as the specification fixes it\<close>

text \<open>
  Modelled from the spec: the table \<^verbatim>\<open>LIKELY_SUBTAGS\<close> of
  \<^verbatim>\<open>langcodes.data_dicts\<close> is not among the sources. The specification has an
  entry for the fully empty tag \<^verbatim>\<open>und\<close> always (4.2), and it has every value be a
  maximized tag string (6): a tag that parses, with a language, a script and a
  territory and nothing else.
\<close>

definition maximized_tag :: "Language \<Rightarrow> bool" where
  "maximized_tag r =
     (truthy (language r) \<and> truthy (script r) \<and> truthy (territory r)
      \<and> extlangs r = [] \<and> variants r = [] \<and> extensions r = [] \<and> private_use r = None)"

definition likely_subtags_complete :: "data_dicts \<Rightarrow> bool" where
  "likely_subtags_complete D =
     (LIKELY_SUBTAGS D ''und'' \<noteq> None
      \<and> (\<forall>v \<in> ran (LIKELY_SUBTAGS D).
            case get D (Str v) False of Inl e \<Rightarrow> False | Inr r \<Rightarrow> maximized_tag r))"

subsection \<open>The store: instances, interning and the cached tag\<close>

text \<open>
  An instance on the heap holds the arguments of \<^verbatim>\<open>__init__\<close> as they were given
  and the memo field \<^verbatim>\<open>_str_tag\<close>. A reference is an index into the heap, and
  \<^verbatim>\<open>is\<close> is equality of references. \<^verbatim>\<open>_INSTANCES\<close> maps the tuple
  \<^verbatim>\<open>values\<close> to a reference.
\<close>

record Language_obj =
  attrs :: kwargs
  str_tag :: "string option"

record store =
  heap :: "Language_obj list"
  INSTANCES :: "Language \<rightharpoonup> nat"

definition empty_store :: store where
  "empty_store = \<lparr>heap = [], INSTANCES = Map.empty\<rparr>"

definition to_tag_st :: "nat \<Rightarrow> store \<Rightarrow> string \<times> store" where
  "to_tag_st r s =
     (let obj = heap s ! r
      in case str_tag obj of
           Some t \<Rightarrow> (t, s)
         | None \<Rightarrow>
             (let t = to_tag (Language_make (attrs obj))
              in (t, s\<lparr>heap := (heap s)[r := obj\<lparr>str_tag := Some t\<rparr>]\<rparr>)))"

text \<open>\<^verbatim>\<open>__init__\<close> allocates the instance and calls \<^verbatim>\<open>to_tag\<close> on it.\<close>

definition Language_init :: "kwargs \<Rightarrow> store \<Rightarrow> nat \<times> store" where
  "Language_init kw s =
     (let r = length (heap s);
          s1 = s\<lparr>heap := heap s @ [\<lparr>attrs = kw, str_tag = None\<rparr>]\<rparr>
      in (r, snd (to_tag_st r s1)))"

definition make_st :: "kwargs \<Rightarrow> store \<Rightarrow> nat \<times> store" where
  "make_st kw s =
     (let vals = Language_make kw
      in case INSTANCES s vals of
           Some r \<Rightarrow> (r, s)
         | None \<Rightarrow>
             (case Language_init kw s of
                (r, s1) \<Rightarrow> (r, s1\<lparr>INSTANCES := (INSTANCES s1)(vals \<mapsto> r)\<rparr>)))"

definition eq_st :: "store \<Rightarrow> nat \<Rightarrow> nat \<Rightarrow> bool" where
  "eq_st s self other =
     (if self = other then True
      else str_tag (heap s ! self) = str_tag (heap s ! other))"

text \<open>A history of the store: calls of the constructor and of \<^verbatim>\<open>Language.make\<close>.\<close>

datatype call = Call_init kwargs | Call_make kwargs

fun run_call :: "call \<Rightarrow> store \<Rightarrow> store" where
  "run_call (Call_init kw) s = snd (Language_init kw s)"
| "run_call (Call_make kw) s = snd (make_st kw s)"

fun run_calls :: "call list \<Rightarrow> store \<Rightarrow> store" where
  "run_calls [] s = s"
| "run_calls (c # cs) s = run_calls cs (run_call c s)"

subsection \<open>The predicate of simplify_script, in the words of the specification\<close>

text \<open>
  The script of a tag is redundant when the language is set, the script is set, and the
  script is the one registered for the language in \<^verbatim>\<open>DEFAULT_SCRIPTS\<close>.
\<close>

definition script_is_default :: "data_dicts \<Rightarrow> Language \<Rightarrow> bool" where
  "script_is_default D t =
     (case (language t, script t) of
        (Some l, Some s) \<Rightarrow> l \<noteq> [] \<and> s \<noteq> [] \<and> DEFAULT_SCRIPTS D l = Some s
      | _ \<Rightarrow> False)"

subsection \<open>A small instance of the reference data\<close>

definition example_parse_tag :: "string \<Rightarrow> (subtag \<times> string) list option" where
  "example_parse_tag =
     [''en-Latn-US'' \<mapsto> [(T_language, ''en''), (T_script, ''Latn''), (T_territory, ''US'')],
      ''hi-Deva-IN'' \<mapsto> [(T_language, ''hi''), (T_script, ''Deva''), (T_territory, ''IN'')],
      ''en-gb-oed'' \<mapsto> [(T_grandfathered, ''en-gb-oed'')]]"

definition example_data :: data_dicts where
  "example_data =
     \<lparr>DEFAULT_SCRIPTS = [''en'' \<mapsto> ''Latn''],
      LANGUAGE_REPLACEMENTS = [''en-gb-oed'' \<mapsto> ''en-GB-oxendict''],
      TERRITORY_REPLACEMENTS = Map.empty,
      NORMALIZED_MACROLANGUAGES = Map.empty,
      LIKELY_SUBTAGS = [''und'' \<mapsto> ''en-Latn-US'', ''und-IN'' \<mapsto> ''hi-Deva-IN''],
      parse_tag = example_parse_tag,
      rule_distance = (\<lambda>desired supported. 500),
      recursion_limit = 1000\<rparr>"

definition no_data :: data_dicts where
  "no_data =
     \<lparr>DEFAULT_SCRIPTS = Map.empty, LANGUAGE_REPLACEMENTS = Map.empty,
      TERRITORY_REPLACEMENTS = Map.empty, NORMALIZED_MACROLANGUAGES = Map.empty,
      LIKELY_SUBTAGS = Map.empty, parse_tag = (\<lambda>tag. None),
      rule_distance = (\<lambda>desired supported. 0), recursion_limit = 1000\<rparr>"

text \<open>
  A table that is not as the specification describes it: the value for \<^verbatim>\<open>und\<close> is
  not a maximized tag.
\<close>

definition chained_data :: data_dicts where
  "chained_data =
     no_data\<lparr>LIKELY_SUBTAGS := [''und'' \<mapsto> ''en'', ''en'' \<mapsto> ''en-Latn-US''],
              parse_tag := [''en'' \<mapsto> [(T_language, ''en'')],
                            ''en-Latn-US'' \<mapsto> [(T_language, ''en''), (T_script, ''Latn''),
                                                    (T_territory, ''US'')]]\<rparr>"

definition tag_en_Latn_US :: Language where
  "tag_en_Latn_US =
     Language_make (no_kwargs\<lparr>kw_language := Some ''en'', kw_script := Some ''Latn'',
                              kw_territory := Some ''US''\<rparr>)"

definition tag_en :: Language where
  "tag_en = Language_make (no_kwargs\<lparr>kw_language := Some ''en''\<rparr>)"

definition tag_und_IN :: Language where
  "tag_und_IN = Language_make (no_kwargs\<lparr>kw_territory := Some ''IN''\<rparr>)"

definition tag_hi_Deva_IN :: Language where
  "tag_hi_Deva_IN =
     Language_make (no_kwargs\<lparr>kw_language := Some ''hi'', kw_script := Some ''Deva'',
                              kw_territory := Some ''IN''\<rparr>)"

definition kw_en_US_as_language :: kwargs where
  "kw_en_US_as_language = no_kwargs\<lparr>kw_language := Some ''en-US''\<rparr>"

definition kw_en_US :: kwargs where
  "kw_en_US = no_kwargs\<lparr>kw_language := Some ''en'', kw_territory := Some ''US''\<rparr>"

definition example_calls :: "call list" where
  "example_calls = [Call_make kw_en_US_as_language, Call_make kw_en_US]"

definition tag_en_Latn :: Language where
  "tag_en_Latn = Language_make (no_kwargs\<lparr>kw_language := Some ''en'', kw_script := Some ''Latn''\<rparr>)"

subsection \<open>The invariants of the store\<close>

text \<open>Every instance on the heap holds the serialization of its own attributes.\<close>

definition tags_cached :: "store \<Rightarrow> bool" where
  "tags_cached s =
     (\<forall>obj \<in> set (heap s). str_tag obj = Some (to_tag (Language_make (attrs obj))))"

text \<open>
  Every entry of \<^verbatim>\<open>_INSTANCES\<close> refers to an instance on the heap whose interning
  tuple is the key.
\<close>

definition instances_valid :: "store \<Rightarrow> bool" where
  "instances_valid s =
     (\<forall>k r. INSTANCES s k = Some r \<longrightarrow>
        r < length (heap s) \<and> Language_make (attrs (heap s ! r)) = k)"

section \<open>Properties\<close>

subsection \<open>Attributes of an update\<close>

lemma truthy_simps [simp]:
  "truthy None = False" "truthy (Some s) = (s \<noteq> [])"
  by (simp_all add: truthy_def)

lemma update_fields:
  "language (update r t) = py_or (language t) (language r)"
  "extlangs (update r t) = list_or (extlangs t) (extlangs r)"
  "script (update r t) = py_or (script t) (script r)"
  "territory (update r t) = py_or (territory t) (territory r)"
  "variants (update r t) = list_or (variants t) (variants r)"
  "extensions (update r t) = list_or (extensions t) (extensions r)"
  "private_use (update r t) = py_or (private_use t) (private_use r)"
  by (simp_all add: update_def Language_make_def or_empty_def)

subsection \<open>get without normalization\<close>

lemma get_step_no_normalise:
  "get_step D rec False data c = get_step D rec' False data c"
  by (cases c) (auto simp: get_step_def)

lemma get_loop_no_normalise:
  "get_loop D rec False cs data = get_loop D rec' False cs data"
proof (induction cs arbitrary: data)
  case Nil
  show ?case by simp
next
  case (Cons c cs)
  show ?case
    using get_step_no_normalise [of D rec data c rec'] Cons.IH
    by (auto split: sum.splits)
qed

lemma get_body_no_normalise:
  "get_body D rec tag False = get_body D rec' tag False"
  using get_loop_no_normalise [of D rec _ no_kwargs rec']
  by (auto simp: get_body_def get_str_def split: tag_arg.splits option.splits sum.splits)

lemma get_no_normalise:
  "get D tag False = get_body D (\<lambda>tag normalise. Inl RecursionError) tag False"
  unfolding get_def
  by (cases "recursion_limit D") (simp_all add: get_body_no_normalise [of D "get_depth D _"])

subsection \<open>broaden\<close>

lemma to_tag_empty: "to_tag (Language_make no_kwargs) = ''und''"
  by (simp add: to_tag_def Language_make_def no_kwargs_def subtag_of_def or_empty_def)

lemma filter_attributes_empty: "filter_attributes t {} = Language_make no_kwargs"
  by (simp add: filter_attributes_def filter_keys_def no_kwargs_def)

lemma broaden_loop_keeps: "set broader \<subseteq> set (broaden_loop self ks broader seen)"
proof (induction ks arbitrary: broader seen)
  case Nil
  show ?case by simp
next
  case (Cons k ks)
  have "set broader \<subseteq> set (broader @ [filter_attributes self k])" by auto
  with Cons [of "broader @ [filter_attributes self k]"] Cons [of broader]
  show ?case by (auto simp: Let_def)
qed

lemma broaden_loop_covers:
  assumes "\<forall>x \<in> seen. length x = 1 \<or> x \<in> to_tag ` set broader"
    and "k \<in> set ks"
    and "length (to_tag (filter_attributes self k)) \<noteq> 1"
  shows "to_tag (filter_attributes self k) \<in> to_tag ` set (broaden_loop self ks broader seen)"
  using assms
proof (induction ks arbitrary: broader seen)
  case Nil
  then show ?case by simp
next
  case (Cons k' ks)
  let ?f = "filter_attributes self k'"
  show ?case
  proof (cases "to_tag ?f \<in> seen")
    case True
    then have step: "broaden_loop self (k' # ks) broader seen = broaden_loop self ks broader seen"
      by (simp add: Let_def)
    show ?thesis
    proof (cases "k = k'")
      case True
      with \<open>to_tag ?f \<in> seen\<close> Cons.prems have "to_tag ?f \<in> to_tag ` set broader" by auto
      with broaden_loop_keeps [of broader self ks seen] True step show ?thesis by auto
    next
      case False
      with Cons.prems have "k \<in> set ks" by simp
      with Cons.IH [of seen broader] Cons.prems step show ?thesis by simp
    qed
  next
    case False
    then have step: "broaden_loop self (k' # ks) broader seen
        = broaden_loop self ks (broader @ [?f]) (insert (to_tag ?f) seen)"
      by (simp add: Let_def)
    have inv: "\<forall>x \<in> insert (to_tag ?f) seen. length x = 1 \<or> x \<in> to_tag ` set (broader @ [?f])"
      using Cons.prems(1) by auto
    show ?thesis
    proof (cases "k = k'")
      case True
      have "to_tag ?f \<in> to_tag ` set (broader @ [?f])" by simp
      with broaden_loop_keeps [of "broader @ [?f]" self ks "insert (to_tag ?f) seen"] True step
      show ?thesis by auto
    next
      case False
      with Cons.prems have "k \<in> set ks" by simp
      with Cons.IH [OF inv _ Cons.prems(3)] step show ?thesis by simp
    qed
  qed
qed

lemma und_in_broaden: "\<exists>b \<in> set (broaden t). to_tag b = ''und''"
proof -
  have "to_tag (filter_attributes t {}) \<in> to_tag ` set (broaden t)"
    unfolding broaden_def
    by (rule broaden_loop_covers)
       (auto simp: BROADER_KEYSETS_def filter_attributes_empty to_tag_empty)
  then show ?thesis
    by (auto simp: filter_attributes_empty to_tag_empty)
qed

subsection \<open>maximize\<close>

lemma maximize_loop_result:
  "maximize_loop D self bs = Inr m \<Longrightarrow>
     \<exists>b \<in> set bs. \<exists>v r. LIKELY_SUBTAGS D (to_tag b) = Some v
        \<and> get D (Str v) False = Inr r \<and> m = update r self"
  by (induction bs) (auto simp: Let_def split: option.splits sum.splits)

lemma maximize_loop_no_hit:
  "\<forall>b \<in> set bs. LIKELY_SUBTAGS D (to_tag b) = None \<Longrightarrow>
     maximize_loop D self bs = Inl RuntimeError"
  by (induction bs) (simp_all add: Let_def)

lemma complete_value:
  assumes "likely_subtags_complete D" "LIKELY_SUBTAGS D k = Some v"
  shows "\<exists>r. get D (Str v) False = Inr r \<and> maximized_tag r"
proof -
  from assms(2) have "v \<in> ran (LIKELY_SUBTAGS D)" by (auto simp: ran_def)
  with assms(1) have "case get D (Str v) False of Inl e \<Rightarrow> False | Inr r \<Rightarrow> maximized_tag r"
    unfolding likely_subtags_complete_def by blast
  then show ?thesis
    by (cases "get D (Str v) False") simp_all
qed

lemma maximize_loop_hit:
  assumes "likely_subtags_complete D"
    and "\<exists>b \<in> set bs. LIKELY_SUBTAGS D (to_tag b) \<noteq> None"
  shows "\<exists>r. maximized_tag r \<and> maximize_loop D self bs = Inr (update r self)"
  using assms(2)
proof (induction bs)
  case Nil
  then show ?case by simp
next
  case (Cons b bs)
  show ?case
  proof (cases "LIKELY_SUBTAGS D (to_tag b)")
    case None
    with Cons show ?thesis by (auto simp: Let_def)
  next
    case (Some v)
    from complete_value [OF assms(1) Some] obtain r
      where "get D (Str v) False = Inr r" "maximized_tag r" by blast
    with Some show ?thesis by (auto simp: Let_def)
  qed
qed

lemma maximize_total:
  assumes "likely_subtags_complete D"
  shows "\<exists>r. maximized_tag r \<and> maximize D t = Inr (update r t)"
proof -
  from und_in_broaden [of t] obtain b where "b \<in> set (broaden t)" "to_tag b = ''und''" by blast
  moreover from assms have "LIKELY_SUBTAGS D ''und'' \<noteq> None"
    by (simp add: likely_subtags_complete_def)
  ultimately have "\<exists>b \<in> set (broaden t). LIKELY_SUBTAGS D (to_tag b) \<noteq> None"
    by metis
  from maximize_loop_hit [OF assms this] show ?thesis by (simp add: maximize_def)
qed



lemmas tag_defs = to_tag_def subtag_of_def Language_make_def no_kwargs_def or_empty_def
  truthy_list_def to_dict_def filter_keys_def filter_attributes_def

lemmas broaden_defs = broaden_def BROADER_KEYSETS_def Let_def

lemmas get_defs = get_no_normalise get_body_def get_str_def get_step_def lower_def

lemmas example_defs = example_data_def example_parse_tag_def tag_en_def tag_und_IN_def
  tag_hi_Deva_IN_def

lemma example_maximize_und_IN: "maximize example_data tag_und_IN = Inr tag_hi_Deva_IN"
  by (simp add: maximize_def tag_defs broaden_defs get_defs example_defs update_def
        py_or_def list_or_def)

lemma example_maximize_hi_Deva_IN: "maximize example_data tag_hi_Deva_IN = Inr tag_hi_Deva_IN"
  by (simp add: maximize_def tag_defs broaden_defs get_defs example_defs update_def
        py_or_def list_or_def)

lemma example_complete: "likely_subtags_complete example_data"
  by (simp add: likely_subtags_complete_def maximized_tag_def tag_defs get_defs example_defs)

subsection \<open>Claims about maximize\<close>

text \<open>
  Claim C1. \<^verbatim>\<open>maximize\<close> never drops a field that the caller specified: when
  \<^verbatim>\<open>t.maximize()\<close> returns \<open>m\<close>, then \<open>m\<close> is the value found in the likely-subtags
  table, parsed without normalization and updated with \<open>t\<close>, and every non-empty
  attribute of \<open>t\<close> (language, extlangs, script, territory, variants, extensions,
  private) is the attribute of \<open>m\<close>. The witness is the tag with only the territory
  \<^verbatim>\<open>IN\<close>, which keeps it while language and script are filled in.
\<close>

theorem maximize_keeps_fields:
  assumes "maximize D t = Inr m"
  shows "(\<exists>v r. v \<in> ran (LIKELY_SUBTAGS D) \<and> get D (Str v) False = Inr r \<and> m = update r t)
       \<and> (truthy (language t) \<longrightarrow> language m = language t)
       \<and> (extlangs t \<noteq> [] \<longrightarrow> extlangs m = extlangs t)
       \<and> (truthy (script t) \<longrightarrow> script m = script t)
       \<and> (truthy (territory t) \<longrightarrow> territory m = territory t)
       \<and> (variants t \<noteq> [] \<longrightarrow> variants m = variants t)
       \<and> (extensions t \<noteq> [] \<longrightarrow> extensions m = extensions t)
       \<and> (truthy (private_use t) \<longrightarrow> private_use m = private_use t)"
proof -
  from assms obtain v r where hit: "v \<in> ran (LIKELY_SUBTAGS D)"
      "get D (Str v) False = Inr r" "m = update r t"
    unfolding maximize_def by (auto dest!: maximize_loop_result simp: ran_def)
  from hit(3) have "(truthy (language t) \<longrightarrow> language m = language t)
       \<and> (extlangs t \<noteq> [] \<longrightarrow> extlangs m = extlangs t)
       \<and> (truthy (script t) \<longrightarrow> script m = script t)
       \<and> (truthy (territory t) \<longrightarrow> territory m = territory t)
       \<and> (variants t \<noteq> [] \<longrightarrow> variants m = variants t)
       \<and> (extensions t \<noteq> [] \<longrightarrow> extensions m = extensions t)
       \<and> (truthy (private_use t) \<longrightarrow> private_use m = private_use t)"
    by (simp add: update_fields py_or_def list_or_def)
  with hit show ?thesis by blast
qed

theorem maximize_keeps_fields_witness:
  "maximize example_data tag_und_IN = Inr tag_hi_Deva_IN
   \<and> truthy (territory tag_und_IN)
   \<and> territory tag_hi_Deva_IN = territory tag_und_IN
   \<and> territory tag_und_IN = Some ''IN''
   \<and> language tag_und_IN = None \<and> script tag_und_IN = None
   \<and> language tag_hi_Deva_IN = Some ''hi'' \<and> script tag_hi_Deva_IN = Some ''Deva''"
proof -
  have h: "maximize example_data tag_und_IN = Inr tag_hi_Deva_IN"
    by (rule example_maximize_und_IN)
  have t: "truthy (territory tag_und_IN)"
    by (simp add: tag_und_IN_def tag_defs)
  from maximize_keeps_fields [OF h] t
  have "territory tag_hi_Deva_IN = territory tag_und_IN" by blast
  with h t show ?thesis
    by (simp add: tag_und_IN_def tag_hi_Deva_IN_def tag_defs)
qed

text \<open>
  Claim C9. If no form that \<^verbatim>\<open>t.broaden()\<close> produces serializes to a key of the
  likely-subtags table, \<^verbatim>\<open>t.maximize()\<close> raises the \<^verbatim>\<open>RuntimeError\<close> about the
  likely-subtags data: it returns no value and falls back on nothing.
\<close>

theorem maximize_no_entry_raises:
  assumes "\<forall>b \<in> set (broaden t). LIKELY_SUBTAGS D (to_tag b) = None"
  shows "maximize D t = Inl RuntimeError"
  unfolding maximize_def using assms by (rule maximize_loop_no_hit)

theorem maximize_no_entry_raises_witness:
  "maximize no_data tag_en = Inl RuntimeError"
proof -
  have h: "\<forall>b \<in> set (broaden tag_en). LIKELY_SUBTAGS no_data (to_tag b) = None"
    by (simp add: no_data_def)
  from maximize_no_entry_raises [OF h] show ?thesis .
qed



text \<open>
  The assumption on the table is needed: with a value that is not a maximized tag a
  second \<^verbatim>\<open>maximize\<close> fills in more.
\<close>

lemma example_chained_maximize:
  "maximize chained_data (Language_make no_kwargs) = Inr tag_en"
  "maximize chained_data tag_en = Inr tag_en_Latn_US"
  by (simp_all add: maximize_def tag_defs broaden_defs get_defs update_def py_or_def
        list_or_def chained_data_def no_data_def tag_en_def tag_en_Latn_US_def)

lemma distance_triple_total:
  assumes "likely_subtags_complete D"
  shows "\<exists>tr. distance_triple D t = Inr tr"
  using maximize_total [OF assms, of "prefer_macrolanguage D t"]
  by (auto simp: distance_triple_def)

subsection \<open>Claims about distance\<close>



lemma example_distance: "distance example_data tag_en tag_und_IN = Inr 134"
proof -
  have "tag_en \<noteq> tag_und_IN" "to_tag tag_und_IN \<noteq> to_tag tag_en"
    by (simp_all add: example_defs tag_defs)
  moreover have "language tag_en \<noteq> None" "territory tag_und_IN \<noteq> None"
    by (simp_all add: example_defs tag_defs)
  moreover from distance_triple_total [OF example_complete] obtain d s
    where "distance_triple example_data tag_en = Inr d"
      "distance_triple example_data tag_und_IN = Inr s" by blast
  ultimately show ?thesis
    by (simp add: distance_def Language_eq_def tuple_distance_cached_def example_data_def)
qed

text \<open>Without any table \<^verbatim>\<open>maximize\<close> raises, and so does \<^verbatim>\<open>distance\<close>.\<close>

lemma example_distance_raises: "distance no_data tag_en tag_und_IN = Inl RuntimeError"
proof -
  have "maximize no_data t = Inl RuntimeError" for t
    unfolding maximize_def by (rule maximize_loop_no_hit) (simp add: no_data_def)
  moreover have "prefer_macrolanguage no_data tag_en = tag_en"
    by (simp add: prefer_macrolanguage_def no_data_def)
  moreover have "tag_en \<noteq> tag_und_IN" "to_tag tag_und_IN \<noteq> to_tag tag_en"
      "language tag_en \<noteq> None"
    by (simp_all add: example_defs tag_defs)
  ultimately show ?thesis
    by (simp add: distance_def distance_triple_def Language_eq_def)
qed

subsection \<open>Claim about broaden\<close>

text \<open>
  Claim C2. \<^verbatim>\<open>t.broaden()\<close> begins with \<open>t\<close> and goes on with the restrictions of
  \<open>t\<close> to the six keysets, skipping every form whose serialization was produced
  before, so that no two elements serialize alike. The code does not do that: it
  starts \<^verbatim>\<open>seen\<close> as \<^verbatim>\<open>set(self.to_tag())\<close>, the set of the characters of the
  tag, so the tag of \<open>t\<close> itself is not in \<^verbatim>\<open>seen\<close> and the first restriction that
  serializes like \<open>t\<close> is appended again. For the tag \<^verbatim>\<open>en\<close> the list is
  \<^verbatim>\<open>en, en, und\<close>.
\<close>

theorem broaden_repeats_self:
  "map to_tag (broaden tag_en) = [''en'', ''en'', ''und'']
   \<and> \<not> distinct (map to_tag (broaden tag_en))"
  by (simp add: tag_en_def tag_defs broaden_defs)

subsection \<open>Claim about simplify_script\<close>

text \<open>
  Claim C5. \<^verbatim>\<open>t.simplify_script()\<close> is \<open>t\<close> without its script exactly when the
  language of \<open>t\<close> is set and the script of \<open>t\<close> is the default script registered
  for that language; in every other case (no language, no script, another script) it
  is \<open>t\<close> unchanged.
\<close>

theorem simplify_script_exact:
  "simplify_script D t = (if script_is_default D t then t\<lparr>script := None\<rparr> else t)"
  by (cases "language t"; cases "script t")
     (auto simp: simplify_script_def script_is_default_def update_dict_def dict_get_def
        no_newdata_def Language_make_def or_empty_def)

lemma example_simplify_script:
  "simplify_script example_data tag_en_Latn = tag_en"
  "simplify_script example_data tag_hi_Deva_IN = tag_hi_Deva_IN"
  by (simp_all add: simplify_script_def update_dict_def dict_get_def no_newdata_def
        example_defs tag_en_Latn_def tag_defs)

lemma py_eq_refl: "py_eq x x"
  by (cases x) (simp_all add: Language_eq_def)

lemma py_in_member: "x \<in> set xs \<Longrightarrow> py_in x xs"
  using py_eq_refl by (auto simp: py_in_def list_ex_iff)

subsection \<open>Claim about closest_match\<close>

text \<open>
  Claim C4. If the desired language is an element of the list of supported languages,
  \<^verbatim>\<open>closest_match\<close> returns it with the distance 0, whatever \<^verbatim>\<open>max_distance\<close> is
  and whatever the parser and the tables are: nothing is parsed, normalized or
  measured. In the witness the desired tag does not parse and \<^verbatim>\<open>max_distance\<close> is
  negative.
\<close>

theorem closest_match_exact:
  assumes "desired \<in> set supported"
  shows "closest_match D desired supported max_distance = Inr (desired, 0)"
  using py_in_member [OF assms] by (simp add: closest_match_def)

theorem closest_match_exact_witness:
  "closest_match no_data (Str ''spa-mx-latn'') [Str ''fr'', Str ''spa-mx-latn''] (- 1)
     = Inr (Str ''spa-mx-latn'', 0)"
proof -
  have "Str ''spa-mx-latn'' \<in> set [Str ''fr'', Str ''spa-mx-latn'']" by simp
  from closest_match_exact [OF this] show ?thesis .
qed

lemma get_unparsable:
  assumes "\<And>t. parse_tag D t = None"
  shows "get D (Str s) normalise = Inl LanguageTagError"
  unfolding get_def
  by (cases "recursion_limit D") (simp_all add: get_body_def get_str_def assms)

lemma example_closest_match_unparsable:
  "closest_match no_data (Str ''spa-mx-latn'') [Str ''fr''] 25 = Inl LanguageTagError"
proof -
  have "get no_data (Str ''spa-mx-latn'') True = Inl LanguageTagError"
    by (rule get_unparsable) (simp add: no_data_def)
  then show ?thesis
    by (simp add: closest_match_def py_in_def standardize_tag_def)
qed

subsection \<open>Claim about Language.get\<close>

text \<open>
  Claim C10. When the parser classifies the whole input as a grandfathered tag and no
  replacement is applied (normalization is off, or the tag has no replacement),
  \<^verbatim>\<open>Language.get\<close> returns the instance whose language is the grandfathered value
  that the parser gave and whose other attributes are unset, as for
  \<^verbatim>\<open>Language.get('en-gb-oed', normalize=False)\<close>.
\<close>

theorem get_grandfathered:
  assumes "parse_tag D tag = Some [(T_grandfathered, v)]"
    and "\<not> normalise \<or> LANGUAGE_REPLACEMENTS D (lower tag) = None"
  shows "get D (Str tag) normalise =
           Inr \<lparr>language = Some v, extlangs = [], script = None, territory = None,
                variants = [], extensions = [], private_use = None\<rparr>"
  using assms unfolding get_def
  by (cases "recursion_limit D")
     (auto simp: get_body_def get_str_def get_step_def tag_defs)

theorem get_grandfathered_witness:
  "get example_data (Str ''en-gb-oed'') False =
     Inr \<lparr>language = Some ''en-gb-oed'', extlangs = [], script = None, territory = None,
          variants = [], extensions = [], private_use = None\<rparr>"
proof -
  have p: "parse_tag example_data ''en-gb-oed'' = Some [(T_grandfathered, ''en-gb-oed'')]"
    by (simp add: example_defs)
  have n: "\<not> False \<or> LANGUAGE_REPLACEMENTS example_data (lower ''en-gb-oed'') = None"
    by simp
  from get_grandfathered [OF p n] show ?thesis .
qed


subsection \<open>The store: claims about interning and equality\<close>

lemma to_tag_st_heap_length [simp]: "length (heap (snd (to_tag_st r s))) = length (heap s)"
  by (simp add: to_tag_st_def Let_def split: option.splits)

lemma to_tag_st_INSTANCES [simp]: "INSTANCES (snd (to_tag_st r s)) = INSTANCES s"
  by (simp add: to_tag_st_def Let_def split: option.splits)

lemma Language_init_INSTANCES [simp]: "INSTANCES (snd (Language_init kw s)) = INSTANCES s"
  by (simp add: Language_init_def Let_def)

lemma Language_init_ref [simp]: "fst (Language_init kw s) = length (heap s)"
  by (simp add: Language_init_def Let_def)

lemma Language_init_heap:
  "heap (snd (Language_init kw s)) =
     heap s @ [\<lparr>attrs = kw, str_tag = Some (to_tag (Language_make kw))\<rparr>]"
  by (simp add: Language_init_def to_tag_st_def Let_def)

lemma make_st_unfold:
  "make_st kw s =
     (case INSTANCES s (Language_make kw) of
        Some r \<Rightarrow> (r, s)
      | None \<Rightarrow> (length (heap s),
          (snd (Language_init kw s))\<lparr>INSTANCES := (INSTANCES s)(Language_make kw \<mapsto> length (heap s))\<rparr>))"
  by (simp add: make_st_def Let_def case_prod_beta split: option.splits)



lemma make_st_enters:
  "INSTANCES (snd (make_st kw s)) (Language_make kw) = Some (fst (make_st kw s))"
  by (simp add: make_st_unfold split: option.splits)



lemma Language_init_cached:
  "tags_cached s \<Longrightarrow> tags_cached (snd (Language_init kw s))"
  by (simp add: tags_cached_def Language_init_heap)

lemma make_st_cached:
  "tags_cached s \<Longrightarrow> tags_cached (snd (make_st kw s))"
  using Language_init_cached [of s kw]
  by (auto simp: make_st_unfold tags_cached_def split: option.splits)

lemma run_calls_cached:
  "tags_cached s \<Longrightarrow> tags_cached (run_calls cs s)"
proof (induction cs arbitrary: s)
  case Nil
  then show ?case by simp
next
  case (Cons c cs)
  then show ?case
    by (cases c) (simp_all add: make_st_cached Language_init_cached)
qed

lemma empty_store_cached: "tags_cached empty_store"
  by (simp add: tags_cached_def empty_store_def)

lemma to_tag_st_cached:
  assumes "tags_cached s" "r < length (heap s)"
  shows "to_tag_st r s = (to_tag (Language_make (attrs (heap s ! r))), s)"
proof -
  from assms have "str_tag (heap s ! r) = Some (to_tag (Language_make (attrs (heap s ! r))))"
    by (simp add: tags_cached_def)
  then show ?thesis by (simp add: to_tag_st_def)
qed

text \<open>
  Claim C7. In a store that calls of the constructor and of \<^verbatim>\<open>Language.make\<close> have
  built, two instances are equal under \<^verbatim>\<open>__eq__\<close> if and only if \<^verbatim>\<open>to_tag\<close>
  returns equal strings for them, and that string is the serialization of the
  attributes. In the witness two instances made from different attributes compare
  equal.
\<close>

theorem eq_iff_same_tag:
  assumes "s = run_calls cs empty_store"
    and "self < length (heap s)" and "other < length (heap s)"
  shows "(eq_st s self other \<longleftrightarrow> fst (to_tag_st self s) = fst (to_tag_st other s))
       \<and> fst (to_tag_st self s) = to_tag (Language_make (attrs (heap s ! self)))"
proof -
  from assms(1) have c: "tags_cached s"
    by (simp add: run_calls_cached empty_store_cached)
  from c assms(2,3) have "str_tag (heap s ! self) = Some (fst (to_tag_st self s))"
      "str_tag (heap s ! other) = Some (fst (to_tag_st other s))"
    by (simp_all add: to_tag_st_cached tags_cached_def)
  with to_tag_st_cached [OF c assms(2)] show ?thesis
    by (auto simp: eq_st_def)
qed

lemma example_store:
  "heap (run_calls example_calls empty_store)
     = [\<lparr>attrs = kw_en_US_as_language, str_tag = Some ''en-US''\<rparr>,
        \<lparr>attrs = kw_en_US, str_tag = Some ''en-US''\<rparr>]"
  by (simp add: example_calls_def make_st_def Language_init_def to_tag_st_def empty_store_def
        Let_def kw_en_US_as_language_def kw_en_US_def tag_defs)

theorem eq_iff_same_tag_witness:
  "eq_st (run_calls example_calls empty_store) 0 1
   \<and> attrs (heap (run_calls example_calls empty_store) ! 0)
       \<noteq> attrs (heap (run_calls example_calls empty_store) ! 1)
   \<and> fst (to_tag_st 0 (run_calls example_calls empty_store)) = ''en-US''"
proof -
  let ?s = "run_calls example_calls empty_store"
  have l: "0 < length (heap ?s)" "1 < length (heap ?s)"
    by (simp_all add: example_store)
  have t: "fst (to_tag_st 0 ?s) = ''en-US''" "fst (to_tag_st 1 ?s) = ''en-US''"
    by (simp_all add: to_tag_st_def example_store)
  from eq_iff_same_tag [OF refl l] t have "eq_st ?s 0 1" by simp
  moreover have "attrs (heap ?s ! 0) \<noteq> attrs (heap ?s ! 1)"
    by (simp add: example_store kw_en_US_as_language_def kw_en_US_def no_kwargs_def)
  ultimately show ?thesis using t by simp
qed


lemma Language_init_valid:
  "instances_valid s \<Longrightarrow> instances_valid (snd (Language_init kw s))"
  by (fastforce simp: instances_valid_def Language_init_heap nth_append)

lemma make_st_valid:
  "instances_valid s \<Longrightarrow> instances_valid (snd (make_st kw s))"
  by (fastforce simp: make_st_unfold instances_valid_def Language_init_heap nth_append
        split: option.splits)

lemma run_calls_valid:
  "instances_valid s \<Longrightarrow> instances_valid (run_calls cs s)"
proof (induction cs arbitrary: s)
  case Nil
  then show ?case by simp
next
  case (Cons c cs)
  then show ?case
    by (cases c) (simp_all add: make_st_valid Language_init_valid)
qed

lemma empty_store_valid: "instances_valid empty_store"
  by (simp add: instances_valid_def empty_store_def)

text \<open>
  The instance that \<^verbatim>\<open>Language.make\<close> returns, in any store that calls of the
  constructor and of \<^verbatim>\<open>Language.make\<close> have built: its interning tuple is the one
  of the arguments, which is the value \<^term>\<open>Language_make kw\<close> of the functional
  model, and its tag is the tag of that value.
\<close>

lemma make_st_abstraction:
  assumes "s = run_calls cs empty_store" and "make_st kw s = (r, s')"
  shows "r < length (heap s')"
    and "Language_make (attrs (heap s' ! r)) = Language_make kw"
    and "fst (to_tag_st r s') = to_tag (Language_make kw)"
proof -
  from assms have s': "s' = run_calls (cs @ [Call_make kw]) empty_store"
  proof -
    have "run_calls (cs @ [c]) s0 = run_call c (run_calls cs s0)" for c s0
      by (induction cs arbitrary: s0) simp_all
    with assms show ?thesis by simp
  qed
  then have v: "instances_valid s'" and c: "tags_cached s'"
    by (simp_all add: run_calls_valid empty_store_valid run_calls_cached empty_store_cached)
  from assms(2) make_st_enters [of kw s] have "INSTANCES s' (Language_make kw) = Some r"
    by simp
  with v show r: "r < length (heap s')"
    and k: "Language_make (attrs (heap s' ! r)) = Language_make kw"
    by (auto simp: instances_valid_def)
  from to_tag_st_cached [OF c r] k show "fst (to_tag_st r s') = to_tag (Language_make kw)"
    by simp
qed

end
